theory Spec2Isabelle
  imports Complex_Main "HOL-Library.Char_ord" "HOL-Library.List_Lexorder"
begin

section \<open>Coffee sales dashboard: the data and the model pipeline of dashboard.py\<close>

text \<open>
  The development follows \<^verbatim>\<open>dashboard.py\<close>: \<^verbatim>\<open>load_data\<close> (lines 86-119) and the parts of
  \<^verbatim>\<open>create_dashboard\<close> that filter the table (lines 126-163) and that build, fit, use and
  evaluate the regression model (lines 609-741). The charts of the first five tabs compute
  nothing the model uses and are left out.

  Floating-point numbers are idealised as real numbers. A value of type \<open>fval\<close> is
  \<open>Some x\<close> for a finite number and \<open>None\<close> for a float that is not finite (NaN or an
  infinity, as pandas and numpy produce on a division by zero); what the libraries do
  with a non-finite value afterwards is not modelled further, it stays \<open>None\<close>.
\<close>

subsection \<open>Transactions\<close>

type_synonym date = "nat \<times> nat \<times> nat"

text \<open>A row of the table after \<^verbatim>\<open>load_data\<close>. \<open>Date\<close> is (year, month, day); \<open>hour\<close> and
  \<open>day_of_week\<close> are the columns the loader extracts from the parsed timestamp.\<close>

record txn =
  Date :: date
  hour :: nat
  day_of_week :: nat
  coffee_name :: string
  cash_type :: string
  money :: real
  Time_of_Day :: string

definition year :: "txn \<Rightarrow> nat" where
  "year t = fst (Date t)"

definition month :: "txn \<Rightarrow> nat" where
  "month t = fst (snd (Date t))"

definition date_le :: "date \<Rightarrow> date \<Rightarrow> bool" where
  "date_le a b =
     (case a of (y1, m1, d1) \<Rightarrow> case b of (y2, m2, d2) \<Rightarrow>
        y1 < y2 \<or> (y1 = y2 \<and> (m1 < m2 \<or> (m1 = m2 \<and> d1 \<le> d2))))"

subsection \<open>Seasons\<close>

text \<open>\<^verbatim>\<open>get_season\<close>, lines 104-112.\<close>

definition get_season :: "nat \<Rightarrow> string" where
  "get_season m =
     (if m \<in> set [12, 1, 2] then ''Winter''
      else if m \<in> set [3, 4, 5] then ''Spring''
      else if m \<in> set [6, 7, 8] then ''Summer''
      else ''Fall'')"

definition season :: "txn \<Rightarrow> string" where
  "season t = get_season (month t)"

text \<open>The dictionary mapped over \<^verbatim>\<open>df_model['Month']\<close>, lines 618-623. A key that is
  missing gives NaN in pandas, here \<open>None\<close>.\<close>

definition Season_dict :: "(nat \<times> string) list" where
  "Season_dict =
     [(12, ''Winter''), (1, ''Winter''), (2, ''Winter''),
      (3, ''Spring''), (4, ''Spring''), (5, ''Spring''),
      (6, ''Summer''), (7, ''Summer''), (8, ''Summer''),
      (9, ''Autumn''), (10, ''Autumn''), (11, ''Autumn'')]"

definition Season :: "txn \<Rightarrow> string option" where
  "Season t = map_of Season_dict (month t)"

text \<open>The conditional expression of line 699, on the month picked for a prediction.\<close>

definition input_season :: "nat \<Rightarrow> string" where
  "input_season input_month =
     (if input_month \<in> set [12, 1, 2] then ''Winter''
      else if input_month \<in> set [3, 4, 5] then ''Spring''
      else if input_month \<in> set [6, 7, 8] then ''Summer''
      else ''Fall'')"

subsection \<open>Sidebar filters\<close>

text \<open>The values of the sidebar widgets (lines 136-154). \<open>date_range\<close> is the tuple the
  date picker returns, which has two entries only once both ends are chosen.\<close>

record filter_sel =
  date_range :: "date list"
  selected_coffees :: "string list"
  selected_cash_types :: "string list"
  selected_seasons :: "string list"
  selected_times :: "string list"

text \<open>Lines 137-142: the date filter, or \<open>None\<close> where the script stops.\<close>

definition date_filtered :: "date list \<Rightarrow> txn list \<Rightarrow> txn list option" where
  "date_filtered dr df =
     (case dr of
        [start_date, end_date] \<Rightarrow>
          Some (filter (\<lambda>t. date_le start_date (Date t) \<and> date_le (Date t) end_date) df)
      | _ \<Rightarrow> None)"

text \<open>Lines 156-159: the four \<^verbatim>\<open>isin\<close> filters, in the order of the source.\<close>

definition isin_filtered :: "filter_sel \<Rightarrow> txn list \<Rightarrow> txn list" where
  "isin_filtered sel df =
     (let d1 = filter (\<lambda>t. coffee_name t \<in> set (selected_coffees sel)) df;
          d2 = filter (\<lambda>t. cash_type t \<in> set (selected_cash_types sel)) d1;
          d3 = filter (\<lambda>t. season t \<in> set (selected_seasons sel)) d2
      in filter (\<lambda>t. Time_of_Day t \<in> set (selected_times sel)) d3)"

subsection \<open>Numbers, columns and frames\<close>

type_synonym fval = "real option"

type_synonym frame = "(string \<times> fval list) list"

text \<open>\<^verbatim>\<open>np.log1p\<close> and \<^verbatim>\<open>np.expm1\<close>.\<close>

definition log1p :: "real \<Rightarrow> fval" where
  "log1p x = (if - 1 < x then Some (ln (1 + x)) else None)"

definition expm1 :: "real \<Rightarrow> real" where
  "expm1 x = exp x - 1"

text \<open>The mean and the standard deviation of a pandas column (\<^verbatim>\<open>ddof = 1\<close>): NaN
  for an empty column, and for the deviation of fewer than two values.\<close>

definition col_mean :: "real list \<Rightarrow> fval" where
  "col_mean xs = (if xs = [] then None else Some (sum_list xs / real (length xs)))"

definition col_std :: "real list \<Rightarrow> fval" where
  "col_std xs =
     (case col_mean xs of
        None \<Rightarrow> None
      | Some m \<Rightarrow>
          if length xs < 2 then None
          else Some (sqrt (sum_list (map (\<lambda>x. (x - m)\<^sup>2) xs) / real (length xs - 1))))"

text \<open>\<^verbatim>\<open>(x - mean) / std\<close>, lines 643 and 718; dividing by a zero deviation leaves the
  finite numbers.\<close>

definition standardize :: "fval \<Rightarrow> fval \<Rightarrow> real \<Rightarrow> fval" where
  "standardize mean_val std_val x =
     (case mean_val of
        None \<Rightarrow> None
      | Some m \<Rightarrow>
          (case std_val of
             None \<Rightarrow> None
           | Some s \<Rightarrow> if s = 0 then None else Some ((x - m) / s)))"

text \<open>\<^verbatim>\<open>str\<close> of a non-negative integer, for the year labels.\<close>

fun str_nat :: "nat \<Rightarrow> string" where
  "str_nat n =
     (if n < 10 then [char_of (48 + n)]
      else str_nat (n div 10) @ [char_of (48 + n mod 10)])"

declare str_nat.simps [simp del]

definition nrows :: "frame \<Rightarrow> nat" where
  "nrows fr = (case fr of [] \<Rightarrow> 0 | cv # _ \<Rightarrow> length (snd cv))"

definition columns :: "frame \<Rightarrow> string list" where
  "columns fr = map fst fr"

text \<open>\<^verbatim>\<open>DataFrame.empty\<close>: some axis has length zero.\<close>

definition frame_empty :: "frame \<Rightarrow> bool" where
  "frame_empty fr = (fr = [] \<or> nrows fr = 0)"

text \<open>\<^verbatim>\<open>.iloc[idx]\<close> on a column and on a frame; the caller checks the positions.\<close>

definition take_rows :: "nat list \<Rightarrow> 'a list \<Rightarrow> 'a list" where
  "take_rows idx vs = map (\<lambda>i. vs ! i) idx"

definition iloc :: "frame \<Rightarrow> nat list \<Rightarrow> frame" where
  "iloc fr idx = map (\<lambda>cv. (fst cv, take_rows idx (snd cv))) fr"

definition frame_row :: "frame \<Rightarrow> nat \<Rightarrow> fval list" where
  "frame_row fr i = map (\<lambda>cv. snd cv ! i) fr"

subsection \<open>Feature Builder (lines 612-651)\<close>

text \<open>\<^verbatim>\<open>pd.get_dummies(..., drop_first=True)\<close> on one categorical column: one
  indicator column per level, the levels sorted, the first level dropped. A missing
  value belongs to no level.\<close>

definition levels :: "string option list \<Rightarrow> string list" where
  "levels vals = sort (remdups (List.map_filter id vals))"

definition dummies :: "string \<Rightarrow> string option list \<Rightarrow> frame" where
  "dummies prefix vals =
     map (\<lambda>lev. (prefix @ ''_'' @ lev,
                 map (\<lambda>v. if v = Some lev then Some 1 else Some 0) vals))
         (tl (levels vals))"

definition X_cat :: "txn list \<Rightarrow> frame" where
  "X_cat df_model =
     dummies ''coffee_name'' (map (\<lambda>t. Some (coffee_name t)) df_model)
     @ dummies ''Time_of_Day'' (map (\<lambda>t. Some (Time_of_Day t)) df_model)
     @ dummies ''Year'' (map (\<lambda>t. Some (str_nat (year t))) df_model)
     @ dummies ''Season'' (map Season df_model)"

definition numeric_column :: "string \<Rightarrow> txn list \<Rightarrow> real list" where
  "numeric_column c df_model =
     (if c = ''hour'' then map (\<lambda>t. real (hour t)) df_model
      else if c = ''day_of_week'' then map (\<lambda>t. real (day_of_week t)) df_model
      else map (\<lambda>t. real (month t)) df_model)"

definition X_num :: "txn list \<Rightarrow> frame" where
  "X_num df_model =
     map (\<lambda>c. let xs = numeric_column c df_model
              in (c, map (standardize (col_mean xs) (col_std xs)) xs))
         [''hour'', ''day_of_week'', ''month'']"

text \<open>Line 648 keeps the columns that hold some value other than zero (NaN counts
  as such).\<close>

definition drop_zero_columns :: "frame \<Rightarrow> frame" where
  "drop_zero_columns fr = filter (\<lambda>cv. list_ex (\<lambda>v. v \<noteq> Some 0) (snd cv)) fr"

text \<open>
  \<^verbatim>\<open>sm.add_constant\<close> puts the intercept column \<^verbatim>\<open>const\<close> in front, unless the frame
  already has a constant column: one whose values are all the same finite number other
  than zero. The feature table never has such a column (\<open>no_constant_column\<close> below), so
  the intercept is always added.
\<close>

definition is_constant_column :: "fval list \<Rightarrow> bool" where
  "is_constant_column vs =
     (case vs of
        [] \<Rightarrow> False
      | v # _ \<Rightarrow> (case v of None \<Rightarrow> False | Some x \<Rightarrow> x \<noteq> 0 \<and> list_all (\<lambda>w. w = Some x) vs))"

definition add_constant :: "nat \<Rightarrow> frame \<Rightarrow> frame" where
  "add_constant n fr = (''const'', replicate n (Some 1)) # fr"

definition X_final :: "txn list \<Rightarrow> frame" where
  "X_final df_model =
     add_constant (length df_model) (drop_zero_columns (X_num df_model @ X_cat df_model))"

definition y_target :: "txn list \<Rightarrow> fval list" where
  "y_target df_model = map (\<lambda>t. log1p (money t)) df_model"

subsection \<open>Train/test split (lines 654-662)\<close>

text \<open>
  \<^verbatim>\<open>int(0.8 * n)\<close>: the double nearest to 0.8 is \<open>3602879701896397 / 2\<^sup>5\<^sup>2\<close>, a little
  above 4/5. The product is taken exactly here and then truncated (the rounding of the
  product itself cannot reach the next integer for the row counts of a table).
\<close>

definition double_0_8 :: rat where
  "double_0_8 = 3602879701896397 / 4503599627370496"

definition train_size :: "nat \<Rightarrow> nat" where
  "train_size n = nat \<lfloor>double_0_8 * of_nat n\<rfloor>"

text \<open>
  numpy's global generator: \<^verbatim>\<open>np.random.seed\<close> replaces its state, and
  \<^verbatim>\<open>np.random.permutation\<close> reads and advances it. Both are library code, taken as
  parameters over an arbitrary type \<open>'g\<close> of generator states.
\<close>

record 'g np_random =
  seed :: "nat \<Rightarrow> 'g"
  permutation :: "'g \<Rightarrow> nat \<Rightarrow> nat list \<times> 'g"

text \<open>Lines 657-659, from the generator state \<open>g\<close> left by whatever ran before;
  the result is (train_idx, test_idx) and the state afterwards.\<close>

definition train_test_split ::
  "'g np_random \<Rightarrow> 'g \<Rightarrow> nat \<Rightarrow> (nat list \<times> nat list) \<times> 'g" where
  "train_test_split np g n =
     (let g1 = seed np 42;
          (idx, g2) = permutation np g1 n
      in ((take (train_size n) idx, drop (train_size n) idx), g2))"

subsection \<open>Model, Predictor and Evaluator (lines 664-741)\<close>

datatype error = IndexError | KeyError | FitError string

text \<open>\<^verbatim>\<open>sm.OLS(y_train, x_train).fit()\<close> is library code: a parameter that returns the
  coefficients, one per column of \<open>x_train\<close>, or raises.\<close>

type_synonym ols = "frame \<Rightarrow> fval list \<Rightarrow> error + real list"

text \<open>\<^verbatim>\<open>model.predict\<close>: the product of each row with the coefficients, which are
  paired with the columns in order. A value that is not finite makes the product so.\<close>

definition dot :: "real list \<Rightarrow> fval list \<Rightarrow> fval" where
  "dot params xs = map_option sum_list (those (map2 (\<lambda>b x. map_option ((*) b) x) params xs))"

definition predict :: "real list \<Rightarrow> frame \<Rightarrow> fval list" where
  "predict params fr = map (\<lambda>i. dot params (frame_row fr i)) [0..<nrows fr]"

record pred_input =
  input_coffee :: string
  input_cash_type :: string
  input_time_of_day :: string
  input_year :: nat
  input_month :: nat
  input_day_of_week :: nat
  input_hour :: nat

text \<open>The one-row frame \<^verbatim>\<open>input_df\<close> as a dictionary from column name to value.
  Lines 692-703 set an indicator only if its column exists.\<close>

type_synonym input_row = "string \<rightharpoonup> fval"

definition set_if_column :: "string \<Rightarrow> input_row \<Rightarrow> input_row" where
  "set_if_column c m = (if m c \<noteq> None then m(c \<mapsto> Some 1) else m)"

definition numerical_data :: "pred_input \<Rightarrow> string \<Rightarrow> real" where
  "numerical_data inp c =
     (if c = ''hour'' then real (input_hour inp)
      else if c = ''month'' then real (input_month inp)
      else real (input_day_of_week inp))"

text \<open>The body of the loop of lines 714-719.\<close>

definition set_numeric ::
  "string list \<Rightarrow> txn list \<Rightarrow> pred_input \<Rightarrow> string \<Rightarrow> input_row \<Rightarrow> input_row" where
  "set_numeric x_train_columns df_model inp col m =
     (if col \<in> set x_train_columns then
        (let mean_val = col_mean (numeric_column col df_model);
             std_val = col_std (numeric_column col df_model)
         in m(col \<mapsto> standardize mean_val std_val (numerical_data inp col)))
      else m)"

definition input_df :: "string list \<Rightarrow> txn list \<Rightarrow> pred_input \<Rightarrow> input_row" where
  "input_df x_train_columns df_model inp =
     (let m0 = map_of (map (\<lambda>c. (c, Some 0)) x_train_columns);
          m1 = m0(''const'' \<mapsto> Some 1);
          m2 = set_if_column (''coffee_name_'' @ input_coffee inp) m1;
          m3 = set_if_column (''Time_of_Day_'' @ input_time_of_day inp) m2;
          m4 = set_if_column (''cash_type_'' @ input_cash_type inp) m3;
          m5 = set_if_column (''Season_'' @ input_season (input_month inp)) m4;
          m6 = set_if_column (''Year_'' @ str_nat (input_year inp)) m5
      in fold (set_numeric x_train_columns df_model inp) [''hour'', ''month'', ''day_of_week''] m6)"

text \<open>Line 722, \<^verbatim>\<open>input_df[x_train.columns]\<close>: a KeyError if a column is missing.\<close>

definition reindex :: "string list \<Rightarrow> input_row \<Rightarrow> error + fval list" where
  "reindex cols m =
     (if list_all (\<lambda>c. m c \<noteq> None) cols then Inr (map (\<lambda>c. the (m c)) cols)
      else Inl KeyError)"

text \<open>Lines 686-726: the predicted amount.\<close>

definition predict_sales ::
  "real list \<Rightarrow> string list \<Rightarrow> txn list \<Rightarrow> pred_input \<Rightarrow> error + fval" where
  "predict_sales params x_train_columns df_model inp =
     (case reindex x_train_columns (input_df x_train_columns df_model inp) of
        Inl e \<Rightarrow> Inl e
      | Inr xs \<Rightarrow> Inr (map_option expm1 (dot params xs)))"

text \<open>Lines 735-738. The metrics of series that hold a non-finite value are not
  modelled, they are \<open>None\<close>; so is the score when the total sum of squares is 0 and
  the quotient is not a finite number.\<close>

definition evaluate :: "fval list \<Rightarrow> fval list \<Rightarrow> fval \<times> fval" where
  "evaluate y_test y_pred =
     (case those y_test of
        None \<Rightarrow> (None, None)
      | Some ys \<Rightarrow>
          (case those y_pred of
             None \<Rightarrow> (None, None)
           | Some ps \<Rightarrow>
               (let sq = map2 (\<lambda>y p. (y - p)\<^sup>2) ys ps;
                    ssr = sum_list sq;
                    sst = map_option (\<lambda>m. sum_list (map (\<lambda>y. (y - m)\<^sup>2) ys)) (col_mean ys);
                    r2 = (case sst of
                            None \<Rightarrow> None
                          | Some t \<Rightarrow> if t = 0 then None else Some (1 - ssr / t));
                    rmse = map_option sqrt (col_mean sq)
                in (r2, rmse))))"

record metrics =
  params :: "real list"
  prediction :: "fval option"
  r2 :: fval
  rmse :: fval

datatype outcome =
  FileNotFound | Stopped | NoData | NotEnoughData | Raised error | Trained metrics

text \<open>The Model Analysis tab on the table \<open>df_model\<close>. \<open>click\<close> is the prediction form
  when the button was pressed.\<close>

definition model_analysis ::
  "'g np_random \<Rightarrow> ols \<Rightarrow> 'g \<Rightarrow> txn list \<Rightarrow> pred_input option \<Rightarrow> outcome" where
  "model_analysis np fit g df_model click =
     (let y = y_target df_model;
          X = X_final df_model;
          n = nrows X;
          (train_idx, test_idx) = fst (train_test_split np g n)
      in if \<not> list_all (\<lambda>i. i < n) (train_idx @ test_idx) then Raised IndexError
         else
           (let x_train = iloc X train_idx; x_test = iloc X test_idx;
                y_train = take_rows train_idx y; y_test = take_rows test_idx y
            in if frame_empty x_train \<or> y_train = [] then NotEnoughData
               else
                 (case fit x_train y_train of
                    Inl e \<Rightarrow> Raised e
                  | Inr b \<Rightarrow>
                      (case (case click of
                               None \<Rightarrow> Inr None
                             | Some inp \<Rightarrow>
                                 map_sum id Some (predict_sales b (columns x_train) df_model inp)) of
                         Inl e \<Rightarrow> Raised e
                       | Inr p \<Rightarrow>
                           (let y_pred = predict b x_test;
                                (r, e) = evaluate y_test y_pred
                            in Trained \<lparr>params = b, prediction = p, r2 = r, rmse = e\<rparr>)))))"

text \<open>\<^verbatim>\<open>create_dashboard\<close>: \<open>loaded\<close> is what \<^verbatim>\<open>load_data\<close> returned. Line 612 hands the
  table \<open>df\<close> to the model tab.\<close>

definition df_model_of :: "txn list \<Rightarrow> txn list \<Rightarrow> txn list" where
  "df_model_of df df_filtered = df"

definition create_dashboard ::
  "'g np_random \<Rightarrow> ols \<Rightarrow> 'g \<Rightarrow> txn list option \<Rightarrow> filter_sel \<Rightarrow> pred_input option \<Rightarrow> outcome" where
  "create_dashboard np fit g loaded sel click =
     (case loaded of
        None \<Rightarrow> FileNotFound
      | Some df \<Rightarrow>
          (case date_filtered (date_range sel) df of
             None \<Rightarrow> Stopped
           | Some d \<Rightarrow>
               (let df_filtered = isin_filtered sel d
                in if df_filtered = [] then NoData
                   else model_analysis np fit g (df_model_of df df_filtered) click)))"

subsection \<open>Notions used to state the results\<close>

text \<open>The five indicator names the prediction form asks for (lines 692-703), the list
  of line 706, and the row of line 687-689 before any indicator is set.\<close>

definition indicator_names :: "pred_input \<Rightarrow> string list" where
  "indicator_names inp =
     [''coffee_name_'' @ input_coffee inp, ''Time_of_Day_'' @ input_time_of_day inp,
      ''cash_type_'' @ input_cash_type inp, ''Season_'' @ input_season (input_month inp),
      ''Year_'' @ str_nat (input_year inp)]"

definition numerical_features :: "string list" where
  "numerical_features = [''hour'', ''month'', ''day_of_week'']"

definition zero_row :: "string list \<Rightarrow> input_row" where
  "zero_row cols = (map_of (map (\<lambda>c. (c, Some 0)) cols))(''const'' \<mapsto> Some 1)"

text \<open>The row handed to \<^verbatim>\<open>model.predict\<close> at line 725, when line 722 succeeds.\<close>

definition the_row :: "string list \<Rightarrow> txn list \<Rightarrow> pred_input \<Rightarrow> fval list" where
  "the_row cols df_model inp = map (\<lambda>c. the (input_df cols df_model inp c)) cols"



text \<open>What the library promises of \<^verbatim>\<open>np.random.permutation(n)\<close> after
  \<^verbatim>\<open>np.random.seed(42)\<close>: the numbers below \<open>n\<close>, each once.\<close>

definition valid_permutation :: "'g np_random \<Rightarrow> nat \<Rightarrow> bool" where
  "valid_permutation np n = (sort (fst (permutation np (seed np 42) n)) = [0..<n])"

subsection \<open>The metrics as the specification words them\<close>






subsection \<open>A small table for the examples\<close>

text \<open>
  Five sales of one product in the summer of 2024, the amounts chosen so that
  \<open>log1p\<close> of the amount is \<open>(13 - hour) / 2\<close>. The generator of the examples counts its
  calls and permutes five rows as \<open>[1, 4, 2, 0, 3]\<close>; the fit of the examples returns the
  coefficients \<open>[3/2, -1, 0, 0]\<close>, which reproduce every target of this table.
\<close>

definition demo_row :: "date \<Rightarrow> nat \<Rightarrow> nat \<Rightarrow> real \<Rightarrow> txn" where
  "demo_row d h w m =
     \<lparr>Date = d, hour = h, day_of_week = w, coffee_name = ''Latte'', cash_type = ''card'',
      money = m, Time_of_Day = ''Morning''\<rparr>"

definition demo_df :: "txn list" where
  "demo_df =
     [demo_row (2024, 6, 3) 12 0 (exp (1 / 2) - 1),
      demo_row (2024, 6, 5) 11 2 (exp 1 - 1),
      demo_row (2024, 8, 7) 11 2 (exp 1 - 1),
      demo_row (2024, 8, 12) 9 0 (exp 2 - 1),
      demo_row (2024, 7, 2) 7 1 (exp 3 - 1)]"

definition demo_np :: "nat np_random" where
  "demo_np =
     \<lparr>seed = (\<lambda>s. s),
      permutation = (\<lambda>g n. (if n = 5 then [1, 4, 2, 0, 3] else rev [0..<n], Suc g))\<rparr>"

definition demo_params :: "real list" where
  "demo_params = [3 / 2, - 1, 0, 0]"

definition demo_fit :: ols where
  "demo_fit x_train y_train = Inr demo_params"

definition failing_fit :: ols where
  "failing_fit x_train y_train = Inl (FitError ''singular matrix'')"

definition demo_input :: pred_input where
  "demo_input =
     \<lparr>input_coffee = ''Latte'', input_cash_type = ''card'', input_time_of_day = ''Morning'',
      input_year = 2024, input_month = 7, input_day_of_week = 1, input_hour = 23\<rparr>"

definition june_only :: filter_sel where
  "june_only =
     \<lparr>date_range = [(2024, 6, 1), (2024, 6, 30)], selected_coffees = [''Latte''],
      selected_cash_types = [''card''], selected_seasons = [''Winter'', ''Spring'', ''Summer'', ''Fall''],
      selected_times = [''Morning'']\<rparr>"

text \<open>Two sales that differ in the product only.\<close>

definition two_coffees :: "txn list" where
  "two_coffees =
     [demo_row (2024, 6, 3) 12 0 3, (demo_row (2024, 6, 3) 12 0 4)\<lparr>coffee_name := ''Mocha''\<rparr>]"



section \<open>Results\<close>

subsection \<open>Seasons\<close>

lemma input_season_get_season: "input_season m = get_season m"
  by (simp add: input_season_def get_season_def)

lemma Season_dict_agrees_before_september:
  "m \<in> {1..8} \<union> {12} \<Longrightarrow> map_of Season_dict m = Some (get_season m)"
proof -
  assume "m \<in> {1..8} \<union> {12}"
  then have "m = 1 \<or> m = 2 \<or> m = 3 \<or> m = 4 \<or> m = 5 \<or> m = 6 \<or> m = 7 \<or> m = 8 \<or> m = 12"
    by auto
  then show ?thesis
    by (auto simp: Season_dict_def get_season_def)
qed

text \<open>
  C3. The season of a month is meant to carry one label wherever it is computed. For
  September the loader and the prediction form say Fall while the table the model is
  trained on says Autumn.
\<close>

theorem season_labels_differ_in_september:
  "get_season 9 = ''Fall'' \<and> input_season 9 = ''Fall'' \<and> map_of Season_dict 9 = Some ''Autumn''"
  by (simp add: get_season_def input_season_def Season_dict_def)

subsection \<open>The prediction row\<close>

lemma m0_lookup:
  "map_of (map (\<lambda>c. (c, v)) cols) c = (if c \<in> set cols then Some v else None)"
  by (induction cols) auto

lemma zero_row_lookup:
  "zero_row cols c = (if c = ''const'' then Some (Some 1) else if c \<in> set cols then Some (Some 0) else None)"
  unfolding zero_row_def by (simp only: fun_upd_apply m0_lookup)

lemma fold_set_if_column:
  "fold set_if_column ks m c = (if c \<in> set ks \<and> m c \<noteq> None then Some (Some 1) else m c)"
proof (induction ks arbitrary: m)
  case Nil
  show ?case by simp
next
  case (Cons k ks)
  show ?case
    by (simp only: fold_simps Cons.IH) (auto simp: set_if_column_def)
qed

lemma fold_set_numeric:
  "fold (set_numeric cols df inp) ns m c =
     (if c \<in> set ns \<and> c \<in> set cols
      then Some (standardize (col_mean (numeric_column c df)) (col_std (numeric_column c df))
                   (numerical_data inp c))
      else m c)"
proof (induction ns arbitrary: m)
  case Nil
  show ?case by simp
next
  case (Cons k ks)
  show ?case
    by (simp only: fold_simps Cons.IH) (auto simp: set_numeric_def Let_def)
qed

lemma input_df_fold:
  "input_df cols df inp =
     fold (set_numeric cols df inp) numerical_features
       (fold set_if_column (indicator_names inp) (zero_row cols))"
  unfolding input_df_def Let_def indicator_names_def numerical_features_def zero_row_def
  by (simp only: fold_simps)

lemma input_df_lookup:
  "input_df cols df inp c =
     (if c \<in> set numerical_features \<and> c \<in> set cols then
        Some (standardize (col_mean (numeric_column c df)) (col_std (numeric_column c df))
                (numerical_data inp c))
      else if c \<in> set (indicator_names inp) \<and> zero_row cols c \<noteq> None then Some (Some 1)
      else zero_row cols c)"
  by (simp only: input_df_fold fold_set_numeric fold_set_if_column)

lemma input_df_defined: "c \<in> set cols \<Longrightarrow> input_df cols df inp c \<noteq> None"
  by (simp add: input_df_lookup zero_row_lookup)

lemma reindex_input_df:
  "reindex cols (input_df cols df inp) = Inr (map (\<lambda>c. the (input_df cols df inp c)) cols)"
  by (simp add: reindex_def list_all_iff input_df_defined)


lemma columns_iloc: "columns (iloc fr idx) = columns fr"
  by (simp add: columns_def iloc_def comp_def)

lemma columns_dummies:
  "c \<in> set (columns (dummies prefix vals)) \<Longrightarrow> \<exists>v. c = prefix @ ''_'' @ v"
  by (auto simp: columns_def dummies_def)

lemma columns_X_cat:
  "c \<in> set (columns (X_cat df)) \<Longrightarrow>
   (\<exists>v. c = ''coffee_name_'' @ v) \<or> (\<exists>v. c = ''Time_of_Day_'' @ v)
   \<or> (\<exists>v. c = ''Year_'' @ v) \<or> (\<exists>v. c = ''Season_'' @ v)"
proof -
  assume "c \<in> set (columns (X_cat df))"
  then have "c \<in> set (columns (dummies ''coffee_name'' (map (\<lambda>t. Some (coffee_name t)) df)))
     \<or> c \<in> set (columns (dummies ''Time_of_Day'' (map (\<lambda>t. Some (Time_of_Day t)) df)))
     \<or> c \<in> set (columns (dummies ''Year'' (map (\<lambda>t. Some (str_nat (year t))) df)))
     \<or> c \<in> set (columns (dummies ''Season'' (map Season df)))"
    by (auto simp: X_cat_def columns_def)
  then show ?thesis
    by (auto dest!: columns_dummies)
qed

lemma columns_X_num: "columns (X_num df) = [''hour'', ''day_of_week'', ''month'']"
  by (simp add: X_num_def columns_def Let_def)

lemma columns_X_final:
  "c \<in> set (columns (X_final df)) \<Longrightarrow>
   c = ''const'' \<or> c \<in> set (columns (X_num df)) \<or> c \<in> set (columns (X_cat df))"
  by (auto simp: X_final_def add_constant_def drop_zero_columns_def columns_def)

lemma no_cash_type_column: "''cash_type_'' @ p \<notin> set (columns (X_final df))"
proof
  assume "''cash_type_'' @ p \<in> set (columns (X_final df))"
  from columns_X_final [OF this] show False
  proof (elim disjE)
    assume "''cash_type_'' @ p = ''const''"
    then show False by simp
  next
    assume "''cash_type_'' @ p \<in> set (columns (X_num df))"
    then show False by (simp add: columns_X_num)
  next
    assume "''cash_type_'' @ p \<in> set (columns (X_cat df))"
    from columns_X_cat [OF this] show False by auto
  qed
qed

lemma input_df_cash_type:
  assumes "''cash_type_'' @ p \<notin> set cols" and "''cash_type_'' @ input_cash_type inp \<notin> set cols"
  shows "input_df cols df (inp\<lparr>input_cash_type := p\<rparr>) = input_df cols df inp"
proof
  fix c
  have z: "zero_row cols (''cash_type_'' @ q) = None" if "''cash_type_'' @ q \<notin> set cols" for q
    using that by (simp add: zero_row_lookup)
  have n: "numerical_data (inp\<lparr>input_cash_type := p\<rparr>) c = numerical_data inp c"
    by (simp add: numerical_data_def)
  let ?inp = "inp\<lparr>input_cash_type := p\<rparr>"
  have sel: "input_coffee ?inp = input_coffee inp" "input_time_of_day ?inp = input_time_of_day inp"
    "input_month ?inp = input_month inp" "input_year ?inp = input_year inp"
    "input_cash_type ?inp = p"
    by simp_all
  have i: "(c \<in> set (indicator_names ?inp) \<and> zero_row cols c \<noteq> None)
         = (c \<in> set (indicator_names inp) \<and> zero_row cols c \<noteq> None)"
    unfolding indicator_names_def sel using z [OF assms(1)] z [OF assms(2)]
    by (simp only: list.set insert_iff empty_iff) blast
  show "input_df cols df (inp\<lparr>input_cash_type := p\<rparr>) c = input_df cols df inp c"
    by (simp only: input_df_lookup n i)
qed

lemma predict_sales_cash_type:
  "predict_sales b (columns (X_final df)) df (inp\<lparr>input_cash_type := p\<rparr>)
   = predict_sales b (columns (X_final df)) df inp"
  unfolding predict_sales_def
  by (simp only: input_df_cash_type [OF no_cash_type_column no_cash_type_column])

subsection \<open>Shape of the feature matrix\<close>

lemma nrows_X_final: "nrows (X_final df) = length df"
  by (simp add: X_final_def add_constant_def nrows_def)

lemma frame_empty_iloc_X_final: "frame_empty (iloc (X_final df) idx) = (idx = [])"
  by (simp add: X_final_def add_constant_def frame_empty_def iloc_def nrows_def take_rows_def)

lemma take_rows_Nil: "(take_rows idx ys = []) = (idx = [])"
  by (simp add: take_rows_def)

lemma sum_list_constant: "\<forall>x \<in> set xs. x = (k::real) \<Longrightarrow> sum_list xs = k * real (length xs)"
  by (induction xs) (auto simp: algebra_simps)

lemma standardized_not_constant:
  "\<not> is_constant_column (map (standardize (col_mean xs) (col_std xs)) xs)"
proof
  assume c: "is_constant_column (map (standardize (col_mean xs) (col_std xs)) xs)"
  then have ne: "xs \<noteq> []" by (auto simp: is_constant_column_def)
  then obtain x0 xr where xs: "xs = x0 # xr" by (cases xs) auto
  from c obtain x where x: "x \<noteq> 0"
    and all: "\<forall>xi \<in> set xs. standardize (col_mean xs) (col_std xs) xi = Some x"
    unfolding xs by (auto simp: is_constant_column_def list_all_iff split: option.splits)
  let ?mu = "sum_list xs / real (length xs)"
  have mu: "col_mean xs = Some ?mu" using ne by (simp add: col_mean_def)
  from all xs obtain sd where sd: "col_std xs = Some sd" "sd \<noteq> 0"
    unfolding mu by (auto simp: standardize_def split: option.splits if_splits)
  have "\<forall>xi \<in> set xs. xi = ?mu + x * sd"
  proof
    fix xi assume "xi \<in> set xs"
    with all have "standardize (Some ?mu) (Some sd) xi = Some x" unfolding mu sd by blast
    then have "(xi - ?mu) / sd = x" using sd(2) by (simp add: standardize_def)
    then show "xi = ?mu + x * sd" using sd(2) by (simp add: field_simps)
  qed
  then have "sum_list xs = (?mu + x * sd) * real (length xs)" by (rule sum_list_constant)
  then have "?mu = ?mu + x * sd" using ne by (simp add: field_simps)
  then show False using x sd(2) by simp
qed

lemma levels_distinct: "distinct (levels vals)"
  by (simp add: levels_def)

lemma map_filter_id_set: "set (List.map_filter id vals) = {lev. Some lev \<in> set vals}"
  by (induction vals) (auto simp: List.map_filter_simps split: option.splits)

lemma levels_set: "set (levels vals) = {lev. Some lev \<in> set vals}"
  by (simp add: levels_def map_filter_id_set)

lemma indicator_not_constant:
  assumes "lev \<in> set (tl (levels vals))"
  shows "\<not> is_constant_column (map (\<lambda>v. if v = Some lev then Some 1 else Some 0) vals)"
proof
  assume c: "is_constant_column (map (\<lambda>v. if v = Some lev then Some 1 else Some 0) vals)"
  let ?f = "\<lambda>v. if v = Some lev then Some (1::real) else Some 0"
  from c obtain v0 vr where vals: "vals = v0 # vr"
    by (cases vals) (auto simp: is_constant_column_def)
  have "?f v0 = Some 1 \<or> ?f v0 = Some 0" by simp
  then have a: "\<forall>w \<in> set vals. ?f w = Some 1"
  proof
    assume "?f v0 = Some 1"
    with c show ?thesis unfolding vals
      by (simp add: is_constant_column_def list_all_iff)
  next
    assume "?f v0 = Some 0"
    with c show ?thesis unfolding vals
      by (simp add: is_constant_column_def)
  qed
  have all: "v = Some lev" if "v \<in> set vals" for v
  proof (rule ccontr)
    assume n: "v \<noteq> Some lev"
    from a that have "?f v = Some 1" by blast
    with n show False by simp
  qed
  have "set (levels vals) \<subseteq> {lev}"
    unfolding levels_set using all by auto
  then have "card (set (levels vals)) \<le> 1"
    by (metis card_mono card_1_singleton_iff finite.emptyI finite.insertI One_nat_def)
  then have "length (levels vals) \<le> 1"
    using levels_distinct [of vals] by (simp add: distinct_card)
  then have "tl (levels vals) = []"
    by (cases "levels vals") auto
  with assms show False by simp
qed

lemma dummies_not_constant:
  "(c, vs) \<in> set (dummies prefix vals) \<Longrightarrow> \<not> is_constant_column vs"
  by (auto simp: dummies_def indicator_not_constant)

lemma no_constant_column:
  assumes "(c, vs) \<in> set (drop_zero_columns (X_num df @ X_cat df))"
  shows "\<not> is_constant_column vs"
proof -
  from assms have "(c, vs) \<in> set (X_num df) \<or> (c, vs) \<in> set (X_cat df)"
    by (auto simp: drop_zero_columns_def)
  then show ?thesis
  proof
    assume "(c, vs) \<in> set (X_num df)"
    then show ?thesis
      by (auto simp: X_num_def Let_def standardized_not_constant)
  next
    assume "(c, vs) \<in> set (X_cat df)"
    then show ?thesis
      unfolding X_cat_def by (auto dest: dummies_not_constant)
  qed
qed


text \<open>Neither \<^verbatim>\<open>Season_Fall\<close> nor \<^verbatim>\<open>Season_Autumn\<close> is ever a column: the training
  table has no label Fall, and Autumn, the least of its four labels, is the level that
  \<^verbatim>\<open>drop_first\<close> drops.\<close>

lemma Season_values:
  assumes "Season t = Some v"
  shows "v \<in> {''Winter'', ''Spring'', ''Summer'', ''Autumn''}"
proof -
  have "(month t, v) \<in> set Season_dict"
    using assms unfolding Season_def by (rule map_of_SomeD)
  then show ?thesis by (auto simp: Season_dict_def)
qed

lemma Season_levels:
  assumes "v \<in> set (levels (map Season df))"
  shows "v \<in> {''Winter'', ''Spring'', ''Summer'', ''Autumn''}"
proof -
  from assms obtain t where "Season t = Some v"
    unfolding levels_set by auto
  then show ?thesis by (rule Season_values)
qed

lemma Autumn_least:
  "v \<in> {''Winter'', ''Spring'', ''Summer'', ''Autumn''} \<Longrightarrow> ''Autumn'' \<le> v"
  by (elim insertE emptyE; hypsubst; code_simp)

lemma Season_column_names:
  assumes "''Season_'' @ v \<in> set (columns (X_final df))"
  shows "v \<in> set (tl (levels (map Season df)))"
proof -
  let ?c = "''Season_'' @ v"
  from columns_X_final [OF assms]
  have "?c \<in> set (columns (X_cat df))"
    by (auto simp: columns_X_num)
  then have "?c \<in> set (columns (dummies ''coffee_name'' (map (\<lambda>t. Some (coffee_name t)) df)))
     \<or> ?c \<in> set (columns (dummies ''Time_of_Day'' (map (\<lambda>t. Some (Time_of_Day t)) df)))
     \<or> ?c \<in> set (columns (dummies ''Year'' (map (\<lambda>t. Some (str_nat (year t))) df)))
     \<or> ?c \<in> set (columns (dummies ''Season'' (map Season df)))"
    by (auto simp: X_cat_def columns_def)
  then have "?c \<in> set (columns (dummies ''Season'' (map Season df)))"
  proof (elim disjE)
    assume "?c \<in> set (columns (dummies ''coffee_name'' (map (\<lambda>t. Some (coffee_name t)) df)))"
    from columns_dummies [OF this] show ?thesis by simp
  next
    assume "?c \<in> set (columns (dummies ''Time_of_Day'' (map (\<lambda>t. Some (Time_of_Day t)) df)))"
    from columns_dummies [OF this] show ?thesis by simp
  next
    assume "?c \<in> set (columns (dummies ''Year'' (map (\<lambda>t. Some (str_nat (year t))) df)))"
    from columns_dummies [OF this] show ?thesis by simp
  qed
  then show ?thesis
    by (auto simp: columns_def dummies_def)
qed

lemma no_Fall_column: "''Season_Fall'' \<notin> set (columns (X_final df))"
proof
  assume "''Season_Fall'' \<in> set (columns (X_final df))"
  then have "''Season_'' @ ''Fall'' \<in> set (columns (X_final df))" by simp
  then have "''Fall'' \<in> set (tl (levels (map Season df)))" by (rule Season_column_names)
  then have "''Fall'' \<in> set (levels (map Season df))"
    by (cases "levels (map Season df)") auto
  from Season_levels [OF this] show False by simp
qed

lemma no_Autumn_column: "''Season_Autumn'' \<notin> set (columns (X_final df))"
proof
  assume "''Season_Autumn'' \<in> set (columns (X_final df))"
  then have "''Season_'' @ ''Autumn'' \<in> set (columns (X_final df))" by simp
  then have t: "''Autumn'' \<in> set (tl (levels (map Season df)))" by (rule Season_column_names)
  then obtain h r where l: "levels (map Season df) = h # r" and a: "''Autumn'' \<in> set r"
    by (cases "levels (map Season df)") auto
  have "sorted (levels (map Season df))" by (simp add: levels_def)
  then have "h \<le> ''Autumn''" unfolding l using a by simp
  moreover have "h \<noteq> ''Autumn''" using levels_distinct [of "map Season df"] a unfolding l by auto
  moreover have "''Autumn'' \<le> h"
    by (rule Autumn_least, rule Season_levels [of h df]) (simp add: l)
  ultimately show False by simp
qed

subsection \<open>The example table, evaluated\<close>

lemma demo_hours: "numeric_column ''hour'' demo_df = [12, 11, 11, 9, 7]"
  by (simp add: numeric_column_def demo_df_def demo_row_def)

lemma demo_days: "numeric_column ''day_of_week'' demo_df = [0, 2, 2, 0, 1]"
  by (simp add: numeric_column_def demo_df_def demo_row_def)

lemma demo_months: "numeric_column ''month'' demo_df = [6, 6, 8, 8, 7]"
  by (simp add: numeric_column_def demo_df_def demo_row_def month_def)

lemma demo_hour_stats:
  "col_mean [12, 11, 11, 9, 7] = Some 10" "col_std [12, 11, 11, 9, 7] = Some 2"
  by (simp_all add: col_mean_def col_std_def)

lemma demo_day_stats:
  "col_mean [0, 2, 2, 0, 1] = Some 1" "col_std [0, 2, 2, 0, 1] = Some 1"
  by (simp_all add: col_mean_def col_std_def)

lemma demo_month_stats:
  "col_mean [6, 6, 8, 8, 7] = Some 7" "col_std [6, 6, 8, 8, 7] = Some 1"
  by (simp_all add: col_mean_def col_std_def)

lemma X_num_demo:
  "X_num demo_df =
     [(''hour'', [Some 1, Some (1 / 2), Some (1 / 2), Some (- 1 / 2), Some (- 3 / 2)]),
      (''day_of_week'', [Some (- 1), Some 1, Some 1, Some (- 1), Some 0]),
      (''month'', [Some (- 1), Some (- 1), Some 1, Some 1, Some 0])]"
  unfolding X_num_def Let_def
  by (simp add: demo_hours demo_days demo_months demo_hour_stats demo_day_stats demo_month_stats standardize_def)

lemma X_cat_demo: "X_cat demo_df = []"
  by (simp add: X_cat_def dummies_def levels_def demo_df_def demo_row_def Season_def month_def
      Season_dict_def year_def List.map_filter_simps)

lemma X_final_demo:
  "X_final demo_df =
     [(''const'', [Some 1, Some 1, Some 1, Some 1, Some 1]),
      (''hour'', [Some 1, Some (1 / 2), Some (1 / 2), Some (- 1 / 2), Some (- 3 / 2)]),
      (''day_of_week'', [Some (- 1), Some 1, Some 1, Some (- 1), Some 0]),
      (''month'', [Some (- 1), Some (- 1), Some 1, Some 1, Some 0])]"
  unfolding X_final_def X_num_demo X_cat_demo
  by (simp add: add_constant_def drop_zero_columns_def demo_df_def numeral_eq_Suc)

lemma y_target_demo:
  "y_target demo_df = [Some (1 / 2), Some 1, Some 1, Some 2, Some 3]"
  by (simp add: y_target_def demo_df_def demo_row_def log1p_def)


lemma train_size_5: "train_size 5 = 4"
  by code_simp

lemma demo_split: "train_test_split demo_np g 5 = (([1, 4, 2, 0], [3]), 43)"
  by (simp add: train_test_split_def demo_np_def train_size_5)

lemma demo_columns: "columns (X_final demo_df) = [''const'', ''hour'', ''day_of_week'', ''month'']"
  by (simp add: X_final_demo columns_def)

lemma demo_input_row:
  "reindex (columns (X_final demo_df)) (input_df (columns (X_final demo_df)) demo_df demo_input)
   = Inr [Some 1, Some (13 / 2), Some 0, Some 0]"
  unfolding reindex_input_df demo_columns
  by (simp add: input_df_lookup zero_row_lookup numerical_features_def indicator_names_def
      demo_hours demo_days demo_months demo_hour_stats demo_day_stats demo_month_stats
      standardize_def numerical_data_def demo_input_def)

lemma demo_prediction:
  "predict_sales demo_params (columns (X_final demo_df)) demo_df demo_input = Inr (Some (expm1 (- 5)))"
  unfolding predict_sales_def demo_input_row
  by (simp add: dot_def demo_params_def)



lemma demo_model_analysis:
  "model_analysis demo_np demo_fit g demo_df (Some demo_input)
   = Trained \<lparr>params = demo_params, prediction = Some (Some (expm1 (- 5))), r2 = None, rmse = Some 0\<rparr>"
proof -
  have n: "nrows (X_final demo_df) = 5" by (simp add: X_final_demo nrows_def)
  have yte: "take_rows [3] (y_target demo_df) = [Some 2]"
    by (simp add: take_rows_def y_target_demo)
  have pte: "predict demo_params (iloc (X_final demo_df) [3]) = [Some 2]"
    by (simp add: X_final_demo iloc_def take_rows_def predict_def nrows_def frame_row_def dot_def demo_params_def)
  have ev: "evaluate [Some 2] [Some 2] = (None, Some 0)"
    by (simp add: evaluate_def col_mean_def)
  show ?thesis
    unfolding model_analysis_def Let_def n demo_split
    by (simp add: frame_empty_iloc_X_final take_rows_Nil yte pte ev demo_fit_def columns_iloc demo_prediction)
qed


subsection \<open>Train/test split\<close>

lemma train_size_eq: "n < 2 ^ 52 \<Longrightarrow> train_size n = 4 * n div 5"
proof -
  assume n: "n < 2 ^ 52"
  let ?k = "4 * n div 5"
  have d: "double_0_8 * of_nat n = of_nat (4 * n) / 5 + of_nat n / (5 * 2 ^ 52)"
    by (simp add: double_0_8_def field_simps)
  have m: "4 * n = 5 * ?k + 4 * n mod 5" by simp
  have r: "4 * n mod 5 \<le> 4" by simp
  have lo: "(of_nat ?k :: rat) \<le> double_0_8 * of_nat n"
  proof -
    have "(of_nat (5 * ?k) :: rat) \<le> of_nat (4 * n)"
      unfolding of_nat_le_iff by simp
    then have "(of_nat ?k :: rat) \<le> of_nat (4 * n) / 5" by simp
    also have "\<dots> \<le> double_0_8 * of_nat n" unfolding d by simp
    finally show ?thesis .
  qed
  have hi: "double_0_8 * of_nat n < of_nat ?k + (1::rat)"
  proof -
    have "(of_nat (4 * n) :: rat) = of_nat (5 * ?k + 4 * n mod 5)" using m by simp
    also have "\<dots> \<le> of_nat (5 * ?k + 4)" unfolding of_nat_le_iff using r by simp
    finally have a: "(of_nat (4 * n) :: rat) / 5 \<le> of_nat ?k + 4 / 5" by simp
    have "(of_nat n :: rat) < 2 ^ 52" using n
      by (metis of_nat_less_iff of_nat_numeral of_nat_power)
    then have b: "(of_nat n :: rat) / (5 * 2 ^ 52) < 1 / 5" by simp
    show ?thesis unfolding d using a b by linarith
  qed
  have "\<lfloor>double_0_8 * of_nat n\<rfloor> = int ?k"
    by (rule floor_unique) (use lo hi in simp_all)
  then show ?thesis by (simp add: train_size_def)
qed

lemma split_independent_of_state: "train_test_split np g n = train_test_split np g' n"
  by (simp add: train_test_split_def)

lemma split_shape:
  assumes "n < 2 ^ 52" and "valid_permutation np n"
  shows "fst (train_test_split np g n)
           = (take (4 * n div 5) (fst (permutation np (seed np 42) n)),
              drop (4 * n div 5) (fst (permutation np (seed np 42) n)))
       \<and> length (fst (fst (train_test_split np g n))) = 4 * n div 5
       \<and> length (snd (fst (train_test_split np g n))) = n - 4 * n div 5"
proof -
  let ?idx = "fst (permutation np (seed np 42) n)"
  have "length (sort ?idx) = length [0..<n]"
    using assms(2) by (simp only: valid_permutation_def)
  then have len: "length ?idx = n" by simp
  have ts: "train_size n = 4 * n div 5" by (rule train_size_eq [OF assms(1)])
  have sp: "fst (train_test_split np g n) = (take (4 * n div 5) ?idx, drop (4 * n div 5) ?idx)"
    by (simp add: train_test_split_def ts case_prod_beta Let_def)
  have le: "4 * n div 5 \<le> n" by simp
  show ?thesis
    unfolding sp using len le by (simp add: min_def)
qed

lemma train_partition_empty_iff:
  assumes "n < 2 ^ 52" and "valid_permutation np n"
  shows "(fst (fst (train_test_split np g n)) = []) = (n \<le> 1)"
proof -
  have "length (fst (fst (train_test_split np g n))) = 4 * n div 5"
    using split_shape [OF assms, of g] by blast
  moreover have "(4 * n div 5 = 0) = (n \<le> 1)" by presburger
  ultimately show ?thesis by (metis length_0_conv)
qed

lemma valid_permutation_in_range:
  assumes "valid_permutation np n"
  shows "list_all (\<lambda>i. i < n) (fst (permutation np (seed np 42) n))"
proof -
  have "set (sort (fst (permutation np (seed np 42) n))) = set [0..<n]"
    using assms by (simp only: valid_permutation_def)
  then have "set (fst (permutation np (seed np 42) n)) = {0..<n}" by simp
  then show ?thesis by (simp add: list_all_iff)
qed

lemma split_appended:
  "fst (fst (train_test_split np g n)) @ snd (fst (train_test_split np g n))
   = fst (permutation np (seed np 42) n)"
  by (simp add: train_test_split_def Let_def case_prod_beta)

lemma demo_np_valid_1: "valid_permutation demo_np 1"
  by (simp add: valid_permutation_def demo_np_def)

lemma demo_np_valid_100: "valid_permutation demo_np 100"
proof -
  have "sort (rev [0..<100]) = [0..<100]"
    by (rule sorted_distinct_set_unique) simp_all
  then show ?thesis by (simp add: valid_permutation_def demo_np_def)
qed

text \<open>
  C5. The split does not depend on the state the generator was left in: two runs on a
  table of \<open>n\<close> rows give the same index lists, the training indices being the first
  \<open>\<lfloor>0.8 n\<rfloor> = 4 n div 5\<close> entries of the seeded permutation and the test indices the
  rest. For 100 rows that is 80 and 20 indices.
\<close>

theorem split_is_deterministic:
  assumes "n < 2 ^ 52" and "valid_permutation np n"
  shows "train_test_split np g n = train_test_split np g' n
       \<and> fst (train_test_split np g n)
           = (take (4 * n div 5) (fst (permutation np (seed np 42) n)),
              drop (4 * n div 5) (fst (permutation np (seed np 42) n)))
       \<and> length (fst (fst (train_test_split np g n))) = 4 * n div 5
       \<and> length (snd (fst (train_test_split np g n))) = n - 4 * n div 5"
  using split_shape [OF assms, of g] split_independent_of_state [of np g n g'] by blast

theorem split_is_deterministic_witness:
  "train_test_split demo_np 0 100 = train_test_split demo_np 7 100
   \<and> length (fst (fst (train_test_split demo_np 0 100))) = 80
   \<and> length (snd (fst (train_test_split demo_np 0 100))) = 20"
proof -
  have a: "(100::nat) < 2 ^ 52" by simp
  show ?thesis
    using split_is_deterministic [OF a demo_np_valid_100, of 0 7] by auto
qed


subsection \<open>Empty filter result\<close>




subsection \<open>Empty training partition\<close>

text \<open>
  C6. When the training partition is empty the model tab ends in the not-enough-data
  state: the fit is not called (so it cannot raise), and neither the prediction nor the
  evaluation takes place, whether or not the prediction button was pressed.
\<close>

theorem empty_training_partition:
  assumes "valid_permutation np (length df_model)"
    and "fst (fst (train_test_split np g (length df_model))) = []"
  shows "model_analysis np fit g df_model click = NotEnoughData"
proof -
  let ?s = "fst (train_test_split np g (length df_model))"
  have r: "list_all (\<lambda>i. i < length df_model) (fst ?s @ snd ?s)"
    unfolding split_appended by (rule valid_permutation_in_range [OF assms(1)])
  show ?thesis
    unfolding model_analysis_def Let_def nrows_X_final case_prod_beta
    using r assms(2) by (simp add: frame_empty_iloc_X_final)
qed

theorem empty_training_partition_witness:
  "model_analysis demo_np failing_fit 0 [hd demo_df] (Some demo_input) = NotEnoughData"
proof -
  have a: "valid_permutation demo_np (length [hd demo_df])"
    using demo_np_valid_1 by simp
  have t: "train_size (Suc 0) = 0" by code_simp
  have b: "fst (fst (train_test_split demo_np 0 (length [hd demo_df]))) = []"
    by (simp add: train_test_split_def demo_np_def t)
  show ?thesis
    by (rule empty_training_partition [OF a b])
qed

subsection \<open>Payment type\<close>

text \<open>
  C10. The payment type chosen in the prediction form has no influence on the outcome of
  the model tab: no column of the training schema is named after a payment type, so the
  test of line 696 never succeeds.
\<close>

theorem payment_type_ignored:
  "model_analysis np fit g df_model (Some (inp\<lparr>input_cash_type := p\<rparr>))
   = model_analysis np fit g df_model (Some inp)"
  unfolding model_analysis_def Let_def case_prod_beta
  by (simp only: option.case columns_iloc predict_sales_cash_type)


theorem payment_type_ignored_witness:
  "model_analysis demo_np demo_fit 0 demo_df (Some (demo_input\<lparr>input_cash_type := ''cash''\<rparr>))
   = Trained \<lparr>params = demo_params, prediction = Some (Some (expm1 (- 5))), r2 = None, rmse = Some 0\<rparr>"
  using payment_type_ignored [of demo_np demo_fit 0 demo_df "''cash''" demo_input]
  by (simp only: demo_model_analysis)


subsection \<open>Predicted amount\<close>

lemma predict_sales_total:
  "predict_sales b cols df inp = Inr (map_option expm1 (dot b (the_row cols df inp)))"
  by (simp add: predict_sales_def reindex_input_df the_row_def)






subsection \<open>Categories without a column\<close>

lemma const_column: "''const'' \<in> set (columns (X_final df))"
  by (simp add: X_final_def add_constant_def columns_def)

lemma input_df_domain:
  "(input_df (columns (X_final df)) df inp c \<noteq> None) = (c \<in> set (columns (X_final df)))"
  using const_column [of df] by (auto simp: input_df_lookup zero_row_lookup)

lemma input_df_other_column:
  assumes "c \<in> set cols" and "c \<noteq> ''const''" and "c \<notin> set numerical_features"
    and "c \<notin> set (indicator_names inp)"
  shows "input_df cols df inp c = Some (Some 0)"
  using assms by (simp only: input_df_lookup zero_row_lookup if_False if_True simp_thms)

text \<open>
  C9. On the schema of the feature matrix the Predictor raises no error for any input;
  the row it builds has exactly the columns of the schema; and every column other than
  the intercept, the numeric columns and the indicators named by the input holds 0. So
  when a category of the input has no column, all indicators of its group stay 0.
\<close>

theorem unseen_category_is_no_error:
  "(\<exists>p. predict_sales b (columns (X_final df_model)) df_model inp = Inr p)
   \<and> (\<forall>c. (input_df (columns (X_final df_model)) df_model inp c \<noteq> None)
            = (c \<in> set (columns (X_final df_model))))
   \<and> (\<forall>c \<in> set (columns (X_final df_model)).
          c \<noteq> ''const'' \<and> c \<notin> set numerical_features \<and> c \<notin> set (indicator_names inp)
          \<longrightarrow> input_df (columns (X_final df_model)) df_model inp c = Some (Some 0))"
  using predict_sales_total input_df_domain input_df_other_column by blast

lemma two_coffees_columns:
  "columns (X_final two_coffees)
   = [''const'', ''hour'', ''day_of_week'', ''month'', ''coffee_name_Mocha'']"
proof -
  have n: "X_num two_coffees
           = [(''hour'', [None, None]), (''day_of_week'', [None, None]), (''month'', [None, None])]"
    by (simp add: X_num_def Let_def numeric_column_def two_coffees_def demo_row_def month_def
        col_mean_def col_std_def standardize_def)
  have l: "levels [Some ''Latte'', Some ''Mocha''] = [''Latte'', ''Mocha'']"
    by code_simp
  have c: "X_cat two_coffees = [(''coffee_name_Mocha'', [Some 0, Some 1])]"
    by (simp add: X_cat_def dummies_def l two_coffees_def demo_row_def Season_def month_def
        Season_dict_def year_def) (simp add: levels_def List.map_filter_simps)
  show ?thesis
    unfolding X_final_def n c by (simp add: add_constant_def drop_zero_columns_def columns_def)
qed

theorem unseen_category_is_no_error_witness:
  "input_df (columns (X_final two_coffees)) two_coffees (demo_input\<lparr>input_coffee := ''Espresso''\<rparr>)
     ''coffee_name_Mocha'' = Some (Some 0)
   \<and> (\<exists>p. predict_sales [1, 0, 0, 0, 2] (columns (X_final two_coffees)) two_coffees
            (demo_input\<lparr>input_coffee := ''Espresso''\<rparr>) = Inr p)"
proof -
  let ?inp = "demo_input\<lparr>input_coffee := ''Espresso''\<rparr>"
  have a: "''coffee_name_Mocha'' \<in> set (columns (X_final two_coffees))"
    by (simp add: two_coffees_columns)
  have b: "''coffee_name_Mocha'' \<noteq> ''const'' \<and> ''coffee_name_Mocha'' \<notin> set numerical_features
           \<and> ''coffee_name_Mocha'' \<notin> set (indicator_names ?inp)"
    by (simp add: numerical_features_def indicator_names_def demo_input_def)
  note t = unseen_category_is_no_error [of "[1, 0, 0, 0, 2]" two_coffees ?inp]
  have z: "input_df (columns (X_final two_coffees)) two_coffees ?inp ''coffee_name_Mocha''
           = Some (Some 0)"
    by (rule conjunct2 [OF conjunct2 [OF t], rule_format, OF a b])
  show ?thesis
    by (rule conjI [OF z conjunct1 [OF t]])
qed


subsection \<open>Standardization\<close>










subsection \<open>Evaluation\<close>
























subsection \<open>The table the model is fitted on\<close>

lemma dashboard_trains_on_whole_table:
  assumes "date_filtered (date_range sel) df = Some d" and "isin_filtered sel d \<noteq> []"
  shows "create_dashboard np fit g (Some df) sel click = model_analysis np fit g df click"
  using assms by (simp add: create_dashboard_def df_model_of_def)

lemma june_only_filtered:
  "date_filtered (date_range june_only) demo_df = Some (take 2 demo_df)"
  "isin_filtered june_only (take 2 demo_df) = take 2 demo_df"
  by (simp_all add: date_filtered_def isin_filtered_def june_only_def demo_df_def demo_row_def
      date_le_def season_def get_season_def month_def)

text \<open>
  C1. The model is meant to be fitted on the filtered table. With the date range set to
  June 2024 two of the five sales of the example table remain, yet the model tab works
  on all five rows and gives the outcome it gives without any filter.
\<close>

theorem model_fitted_on_unfiltered_table:
  "date_filtered (date_range june_only) demo_df = Some (take 2 demo_df)
   \<and> isin_filtered june_only (take 2 demo_df) = take 2 demo_df
   \<and> length (take 2 demo_df) = 2
   \<and> length (y_target (df_model_of demo_df (take 2 demo_df))) = 5
   \<and> create_dashboard demo_np demo_fit 0 (Some demo_df) june_only (Some demo_input)
       = model_analysis demo_np demo_fit 0 demo_df (Some demo_input)"
proof -
  have n: "isin_filtered june_only (take 2 demo_df) \<noteq> []"
    unfolding june_only_filtered by (simp add: demo_df_def)
  have l: "length (take 2 demo_df) = 2" "length (y_target (df_model_of demo_df (take 2 demo_df))) = 5"
    by (simp_all add: demo_df_def y_target_def df_model_of_def)
  show ?thesis
    by (intro conjI june_only_filtered l dashboard_trains_on_whole_table [OF june_only_filtered(1) n])
qed


end
